theory Spec2Isabelle
  imports Main "HOL-Library.Word"
begin

section \<open>Build-time errors\<close>

text \<open>
  Templates are instantiated by the compiler. An instantiation either exists or is
  rejected: by a static assertion, with its message; because a compile-time sequence or
  map has no entry for an index or for a type; or because a constant template argument
  does not fit the type of its parameter (a narrowing conversion).
  \<^verbatim>\<open>GRIDTOOLS_STATIC_ASSERT(cond, msg)\<close> is a static assertion.
\<close>

datatype static_error =
  static_assert_failed string | no_such_key nat | no_such_type string | narrowing_conversion

definition GRIDTOOLS_STATIC_ASSERT :: "bool \<Rightarrow> string \<Rightarrow> static_error + unit" where
  "GRIDTOOLS_STATIC_ASSERT c msg = (if c then Inr () else Inl (static_assert_failed msg))"


section \<open>Compile-time integer sequences (gt_integer_sequence.hpp)\<close>

text \<open>
  \<^verbatim>\<open>integer_sequence<UInt, Indices...>\<close> is a pack of compile-time constants of type
  \<^verbatim>\<open>UInt\<close>; it is modelled as the list of its indices, and \<^verbatim>\<open>UInt\<close> as the number of
  bits of the unsigned type. An index is a template argument: a constant that does not
  fit \<^verbatim>\<open>UInt\<close> is a narrowing conversion, and the instantiation is rejected.

  \<^verbatim>\<open>concat<integer_sequence<UInt, I1...>, integer_sequence<UInt, I2...>>\<close> is
  \<^verbatim>\<open>integer_sequence<UInt, I1..., (sizeof...(I1)+I2)...>\<close>: each sum is computed in
  \<^verbatim>\<open>size_t\<close> and becomes an argument of type \<^verbatim>\<open>UInt\<close>.
\<close>

definition concat_seq :: "nat \<Rightarrow> nat list \<Rightarrow> nat list \<Rightarrow> static_error + nat list" where
  "concat_seq UInt I1 I2 =
     (if list_all (\<lambda>i. length I1 + i < 2 ^ UInt) I2
      then Inr (I1 @ map (\<lambda>i. length I1 + i) I2)
      else Inl narrowing_conversion)"

text \<open>
  The primary template concatenates the sequences for \<open>N/2\<close> and \<open>N - N/2\<close>; the two
  explicit specialisations end the recursion at 0 and at 1. \<open>N\<close> is a template argument
  of type \<^verbatim>\<open>uint_t\<close>; halving it and subtracting the half do not overflow, so it is a
  natural number here.
\<close>

function make_integer_sequence :: "nat \<Rightarrow> nat \<Rightarrow> static_error + nat list" where
  "make_integer_sequence UInt N =
     (if N = 0 then Inr []
      else if N = 1 then Inr [0]
      else
        (case make_integer_sequence UInt (N div 2) of
           Inl e \<Rightarrow> Inl e
         | Inr S1 \<Rightarrow>
             (case make_integer_sequence UInt (N - N div 2) of
                Inl e \<Rightarrow> Inl e
              | Inr S2 \<Rightarrow> concat_seq UInt S1 S2)))"
  by pat_completeness auto
termination
  by (relation "measure (\<lambda>(UInt, N). N)") auto

declare make_integer_sequence.simps [simp del]


section \<open>Cache declarations (define_caches, cache)\<close>

text \<open>
  The scopes and policies of a cache descriptor, and a placeholder \<^verbatim>\<open>arg<I, Storage>\<close>:
  a compile-time index paired with a storage type.
\<close>

datatype cache_type = IJ | K | IJK

datatype cache_io_policy = fill | flush | local

datatype 's arg = arg (arg_index: nat) (storage_type: 's)

text \<open>\<^verbatim>\<open>detail::cache_impl<cacheType, Arg, cacheIOPolicy>\<close>, with the order of its parameters.\<close>

datatype 's cache_impl = cache_impl cache_type "'s arg" cache_io_policy

text \<open>
  Modelled from the spec: the header \<^verbatim>\<open>caches/define_caches.hpp\<close> with
  \<^verbatim>\<open>cache\<close> and \<^verbatim>\<open>define_caches\<close> is not among the sources, only its test is. A cache
  descriptor is a (policy, storage-association, caching-scope) tuple, and a DSL expression
  produces a sequence of such descriptors: \<^verbatim>\<open>cache<scope, policy>(args...)\<close> expands its
  argument pack into one descriptor per placeholder, in order.
\<close>

primrec cache :: "cache_type \<Rightarrow> cache_io_policy \<Rightarrow> 's arg list \<Rightarrow> 's cache_impl list" where
  "cache ct pol [] = []"
| "cache ct pol (a # as) = cache_impl ct a pol # cache ct pol as"

text \<open>
  Modelled from the spec: \<^verbatim>\<open>define_caches\<close> (same missing header) joins the sequences
  made by its \<^verbatim>\<open>cache\<close> arguments into one sequence of descriptors, in the order of
  declaration.
\<close>

primrec define_caches :: "'s cache_impl list list \<Rightarrow> 's cache_impl list" where
  "define_caches [] = []"
| "define_caches (c # cs) = c @ define_caches cs"


section \<open>Snapshot buffers (extend_width)\<close>

text \<open>
  \<^verbatim>\<open>extend_width<Storage, ExtraWidth>\<close> keeps \<^verbatim>\<open>n_args = ExtraWidth + 1\<close> snapshot
  pointers in the array \<^verbatim>\<open>m_fields\<close>. Copying a \<^verbatim>\<open>pointer_type\<close> copies the address,
  so a pointer is any value of type \<open>'p\<close>.
\<close>

record 'p extend_width =
  m_fields :: "'p list"

definition n_args :: "'p extend_width \<Rightarrow> nat" where
  "n_args ew = length (m_fields ew)"

text \<open>
  The loop of \<^verbatim>\<open>advance\<close>:
  \<^verbatim>\<open>for(uint_t i=1;i<n_args;i++) m_fields[i]=m_fields[i-1];\<close>
\<close>

function advance_loop :: "nat \<Rightarrow> nat \<Rightarrow> 'p list \<Rightarrow> 'p list" where
  "advance_loop n i fs =
     (if i < n then advance_loop n (i + 1) (fs[i := fs ! (i - 1)]) else fs)"
  by pat_completeness auto
termination
  by (relation "measure (\<lambda>(n, i, fs). n - i)") auto

declare advance_loop.simps [simp del]

text \<open>
  \<^verbatim>\<open>pointer_type tmp(m_fields[n_args-1]); <loop> m_fields[0]=tmp;\<close>
  The parameter \<^verbatim>\<open>offset\<close> is not used by the body.
\<close>

definition advance :: "'p extend_width \<Rightarrow> 'p extend_width" where
  "advance ew =
     (let tmp = m_fields ew ! (n_args ew - 1);
          fs = advance_loop (n_args ew) 1 (m_fields ew)
      in ew\<lparr>m_fields := fs[0 := tmp]\<rparr>)"


section \<open>Faults of the running program\<close>

text \<open>
  What ends a run instead of a value: a failed assertion aborts the process, reading an
  array outside its bounds and dividing an integer by zero are undefined behaviour.
\<close>

datatype fault = AssertionFailed | OutOfBounds | DivisionByZero

definition bindE :: "fault + 'a \<Rightarrow> ('a \<Rightarrow> fault + 'b) \<Rightarrow> fault + 'b" where
  "bindE m f = (case m of Inl e \<Rightarrow> Inl e | Inr x \<Rightarrow> f x)"

text \<open>Reading slot \<open>n\<close> of a C array.\<close>

definition rd :: "'x list \<Rightarrow> nat \<Rightarrow> fault + 'x" where
  "rd xs n = (if n < length xs then Inr (xs ! n) else Inl OutOfBounds)"

text \<open>The macro \<^verbatim>\<open>assert\<close> of the C library: compiled out when \<^verbatim>\<open>NDEBUG\<close> is defined.\<close>

definition c_assert :: "bool \<Rightarrow> bool \<Rightarrow> fault + unit" where
  "c_assert ndebug c = (if ndebug \<or> c then Inr () else Inl AssertionFailed)"

text \<open>
  Modelled from the spec: \<^verbatim>\<open>backend_traits_t::assertion\<close> is declared in the backend
  traits headers, which are not among the sources. A runtime error such as an
  out-of-bounds index is asserted and not recovered: a false condition ends the run.
\<close>

definition assertion :: "bool \<Rightarrow> fault + unit" where
  "assertion c = (if c then Inr () else Inl AssertionFailed)"

text \<open>
  Modelled from the spec: \<^verbatim>\<open>modulus\<close> comes from \<^verbatim>\<open>common/basic_utils.h\<close>, which is
  not among the sources. Toroidal indexing wraps a coordinate around an extent: the
  result is the non-negative remainder.
\<close>

definition modulus :: "'a::len word \<Rightarrow> 'a word \<Rightarrow> fault + 'a word" where
  "modulus i j = (if j = 0 then Inl DivisionByZero else Inr (i mod j))"


section \<open>Layouts (layout_map)\<close>

text \<open>
  Modelled from the spec: \<^verbatim>\<open>layout_map<I1, I2, I3>\<close> (\<^verbatim>\<open>common/layout_map.h\<close>) is not
  among the sources. It is the memory layout of a storage, its stride ordering:
  \<^verbatim>\<open>get<I>\<close> is the \<open>I\<close>-th entry of the map, \<^verbatim>\<open>pos_<I>\<close> the position at which the map
  holds \<open>I\<close>, and \<^verbatim>\<open>find<I>\<close> selects, from three values or from an array, the one at
  position \<^verbatim>\<open>pos_<I>\<close>. This agrees with the comments of the test of the caches:
  \<^verbatim>\<open>layout_map<2,1,0>\<close> has stride 1 on i and \<^verbatim>\<open>layout_map<0,1,2>\<close> has stride 1 on k.
  A value that the map does not hold has no position: \<open>pos\<close> is then 3, past the end.
  \<^verbatim>\<open>pos_\<close> is written \<open>pos\<close> and \<^verbatim>\<open>find\<close> is written \<open>find_layout\<close>.
\<close>

datatype layout_map = layout_map nat nat nat

fun get :: "layout_map \<Rightarrow> nat \<Rightarrow> nat" where
  "get (layout_map I1 I2 I3) I = (if I = 0 then I1 else if I = 1 then I2 else I3)"

fun pos :: "layout_map \<Rightarrow> nat \<Rightarrow> nat" where
  "pos (layout_map I1 I2 I3) I =
     (if I1 = I then 0 else if I2 = I then 1 else if I3 = I then 2 else 3)"

definition find_layout :: "layout_map \<Rightarrow> nat \<Rightarrow> 'x list \<Rightarrow> fault + 'x" where
  "find_layout l I xs = rd xs (pos l I)"


section \<open>Storage (base_storage)\<close>

text \<open>
  The template parameters \<^verbatim>\<open>Layout\<close> and \<^verbatim>\<open>IsTemporary\<close> are carried as fields. The
  type \<open>'u\<close> is \<^verbatim>\<open>uint_t\<close>, an unsigned machine integer \<open>'a word\<close> whose width is fixed
  by a header that is not among the sources; \<open>'v\<close> is \<^verbatim>\<open>value_type\<close>.
  \<^verbatim>\<open>m_strides\<close> has \<^verbatim>\<open>FIELDS_DIMENSION = 3\<close> slots: the size and two strides.
\<close>

record ('u, 'v) base_storage =
  layout :: layout_map
  IsTemporary :: bool
  m_data :: "'v list"
  is_set :: bool
  m_name :: string
  m_strides :: "'u list"

text \<open>
  The constructor from three extents. The buffer has \<^verbatim>\<open>dim1*dim2*dim3\<close> cells, computed in
  \<^verbatim>\<open>uint_t\<close>, each set to \<^verbatim>\<open>init\<close>; \<^verbatim>\<open>m_strides[1]\<close> is
  \<^verbatim>\<open>dims[get<2>()]*dims[get<1>()]\<close> and \<^verbatim>\<open>m_strides[2]\<close> is \<^verbatim>\<open>dims[get<2>()]\<close>.
\<close>

definition base_storage ::
  "layout_map \<Rightarrow> bool \<Rightarrow> 'a::len word \<Rightarrow> 'a word \<Rightarrow> 'a word \<Rightarrow> 'v \<Rightarrow> string \<Rightarrow>
     fault + ('a word, 'v) base_storage" where
  "base_storage l tmp dim1 dim2 dim3 init s =
     (let dims = [dim1, dim2, dim3] in
      bindE (rd dims (get l 2)) (\<lambda>inner.
      bindE (rd dims (get l 1)) (\<lambda>middle.
      Inr \<lparr>layout = l, IsTemporary = tmp,
           m_data = replicate (unat (dim1 * dim2 * dim3)) init,
           is_set = True, m_name = s,
           m_strides = [dim1 * dim2 * dim3, inner * middle, inner]\<rparr>)))"

definition storage_size :: "('a::len word, 'v) base_storage \<Rightarrow> fault + 'a word" where
  "storage_size s = rd (m_strides s) 0"

text \<open>
  \<^verbatim>\<open>dims_coordwise<Coordinate>(str)\<close>: the extent of a coordinate, from the strides.
\<close>

definition dims_coordwise :: "layout_map \<Rightarrow> nat \<Rightarrow> 'a::len word list \<Rightarrow> fault + 'a word" where
  "dims_coordwise l Coordinate str =
     (if pos l Coordinate = 3 - 1 then rd str (3 - 1)
      else bindE (find_layout l Coordinate str) (\<lambda>n.
           bindE (rd str (get l Coordinate + 1)) (\<lambda>d.
           if d = 0 then Inl DivisionByZero else Inr (n div d))))"

definition dims :: "('a::len word, 'v) base_storage \<Rightarrow> nat \<Rightarrow> fault + 'a word" where
  "dims s I = dims_coordwise (layout s) I (m_strides s)"

text \<open>
  \<^verbatim>\<open>_index(i, j, k)\<close>. The branch of a temporary storage starts with
  \<^verbatim>\<open>assert(false)\<close>; \<open>ndebug\<close> tells whether the build defines \<^verbatim>\<open>NDEBUG\<close>.
\<close>

definition storage_index ::
  "bool \<Rightarrow> ('a::len word, 'v) base_storage \<Rightarrow> 'a word \<Rightarrow> 'a word \<Rightarrow> 'a word \<Rightarrow> fault + 'a word" where
  "storage_index ndebug s i j k =
     (let l = layout s; str = m_strides s in
      if IsTemporary s then
        bindE (c_assert ndebug False) (\<lambda>_.
        bindE (rd str 1) (\<lambda>s1.
        bindE (find_layout l 0 [i, j, k]) (\<lambda>f0.
        bindE (bindE (dims_coordwise l 0 str) (modulus f0)) (\<lambda>m0.
        bindE (rd str 2) (\<lambda>s2.
        bindE (find_layout l 1 [i, j, k]) (\<lambda>f1.
        bindE (bindE (dims_coordwise l 1 str) (modulus f1)) (\<lambda>m1.
        bindE (find_layout l 2 [i, j, k]) (\<lambda>f2.
        bindE (bindE (dims_coordwise l 2 str) (modulus f2)) (\<lambda>m2.
        Inr (s1 * m0 + s2 * m1 + m2))))))))))
      else
        bindE (rd str 1) (\<lambda>s1.
        bindE (find_layout l 0 [i, j, k]) (\<lambda>f0.
        bindE (rd str 2) (\<lambda>s2.
        bindE (find_layout l 1 [i, j, k]) (\<lambda>f1.
        bindE (find_layout l 2 [i, j, k]) (\<lambda>f2.
        Inr (s1 * f0 + s2 * f1 + f2)))))))"

text \<open>
  \<^verbatim>\<open>operator()(i, j, k)\<close>: the index is asserted to be below \<^verbatim>\<open>m_strides[0]\<close>, then
  computed again to read \<^verbatim>\<open>m_data\<close>.
\<close>

definition operator_call ::
  "bool \<Rightarrow> ('a::len word, 'v) base_storage \<Rightarrow> 'a word \<Rightarrow> 'a word \<Rightarrow> 'a word \<Rightarrow> fault + 'v" where
  "operator_call ndebug s i j k =
     bindE (storage_index ndebug s i j k) (\<lambda>idx.
     bindE (rd (m_strides s) 0) (\<lambda>sz.
     bindE (assertion (idx < sz)) (\<lambda>_.
     bindE (storage_index ndebug s i j k) (\<lambda>idx'.
     rd (m_data s) (unat idx')))))"


text \<open>
  A layout that is its own inverse: the entry at position \<open>I\<close> is the position of \<open>I\<close>.
  Of the six layouts of a three-dimensional storage these are \<^verbatim>\<open>layout_map<0,1,2>\<close>,
  \<^verbatim>\<open>layout_map<0,2,1>\<close>, \<^verbatim>\<open>layout_map<1,0,2>\<close> and \<^verbatim>\<open>layout_map<2,1,0>\<close>.
\<close>

definition self_inverse :: "layout_map \<Rightarrow> bool" where
  "self_inverse l = (\<forall>I \<in> {0, 1, 2}. get l I < 3 \<and> get l (get l I) = I)"


section \<open>The iterate domain of the CUDA backend (iterate_domain_cuda)\<close>

text \<open>
  The types that \<^verbatim>\<open>boost::is_arithmetic\<close> tells apart: integral and floating-point
  types, also const-qualified, are arithmetic; references and all other types are not.
\<close>

datatype cpp_type = Integral | Floating | Const cpp_type | Reference cpp_type | Other_type

fun is_arithmetic :: "cpp_type \<Rightarrow> bool" where
  "is_arithmetic Integral = True"
| "is_arithmetic Floating = True"
| "is_arithmetic (Const t) = is_arithmetic t"
| "is_arithmetic (Reference t) = False"
| "is_arithmetic Other_type = False"

text \<open>An accessor: the index of its arg in the local domain and its offsets in i, j, k.\<close>

record accessor =
  index_type :: nat
  offsets :: "int \<times> int \<times> int"

text \<open>
  What the class takes from \<^verbatim>\<open>IterateDomainArguments\<close> and from its base class, whose
  headers are not among the sources: the args of the local domain, the indices of the
  args that every stage of every multistage only reads, the indices that the user put
  into the bypass set, and the return type of each accessor.
\<close>

record 's iterate_domain_arguments =
  local_domain_args :: "'s arg list"
  readonly_args_indices :: "nat set"
  bypass_caches_set :: "nat set"
  accessor_return_type :: "accessor \<Rightarrow> cpp_type"

text \<open>
  \<^verbatim>\<open>accessor_points_to_readonly_arg\<close>: the arg at the accessor's index in the local
  domain, then its own index looked up in the set of read-only args.
\<close>

definition accessor_points_to_readonly_arg :: "'s iterate_domain_arguments \<Rightarrow> accessor \<Rightarrow> bool" where
  "accessor_points_to_readonly_arg ida acc =
     (index_type acc < length (local_domain_args ida) \<and>
      arg_index (local_domain_args ida ! index_type acc) \<in> readonly_args_indices ida)"

definition accessor_read_from_texture :: "'s iterate_domain_arguments \<Rightarrow> accessor \<Rightarrow> bool" where
  "accessor_read_from_texture ida acc =
     ((accessor_points_to_readonly_arg ida acc \<and>
       \<not> index_type acc \<in> bypass_caches_set ida) \<and>
      is_arithmetic (accessor_return_type ida acc))"

text \<open>How a value was read: by the intrinsic \<^verbatim>\<open>__ldg\<close> or as ordinary global memory.\<close>

datatype memory_path = ldg | gmem

text \<open>
  Modelled from the spec: \<^verbatim>\<open>get_gmem_value\<close> belongs to the base class
  (\<^verbatim>\<open>iterate_domain.hpp\<close>), which is not among the sources. It is the direct memory read:
  the element at the pointer plus the computed offset.
\<close>

definition get_gmem_value :: "(nat \<Rightarrow> 'v) \<Rightarrow> nat \<Rightarrow> nat \<Rightarrow> memory_path \<times> 'v" where
  "get_gmem_value mem storage_pointer pointer_offset = (gmem, mem (storage_pointer + pointer_offset))"

text \<open>
  \<^verbatim>\<open>get_value_impl\<close>: the overload enabled by \<^verbatim>\<open>accessor_read_from_texture\<close> uses
  \<^verbatim>\<open>__ldg\<close> when \<^verbatim>\<open>__CUDA_ARCH__ >= 350\<close> and \<^verbatim>\<open>get_gmem_value\<close> otherwise; the
  overload disabled by it uses \<^verbatim>\<open>get_gmem_value\<close>.
\<close>

definition get_value_impl ::
  "nat \<Rightarrow> 's iterate_domain_arguments \<Rightarrow> accessor \<Rightarrow> (nat \<Rightarrow> 'v) \<Rightarrow> nat \<Rightarrow> nat \<Rightarrow> memory_path \<times> 'v" where
  "get_value_impl CUDA_ARCH ida acc mem storage_pointer pointer_offset =
     (if accessor_read_from_texture ida acc then
        (if CUDA_ARCH \<ge> 350 then (ldg, mem (storage_pointer + pointer_offset))
         else get_gmem_value mem storage_pointer pointer_offset)
      else get_gmem_value mem storage_pointer pointer_offset)"

text \<open>
  Modelled from the spec: \<^verbatim>\<open>cache_storage::at\<close> (\<^verbatim>\<open>iterate_domain_cache.hpp\<close> and the
  cache storage are not among the sources). A cache is a tile of values; a cached read
  takes the value of the tile at the position of the thread plus the offsets of the
  accessor, in i and in j.
\<close>

type_synonym 'v cache_storage = "int \<times> int \<Rightarrow> 'v"

definition at :: "'v cache_storage \<Rightarrow> int \<times> int \<Rightarrow> int \<times> int \<times> int \<Rightarrow> 'v" where
  "at c thread_pos offs =
     (case (thread_pos, offs) of ((pi, pj), (oi, oj, ok)) \<Rightarrow> c (pi + oi, pj + oj))"

text \<open>
  The base class (not among the sources) gives \<^verbatim>\<open>get_data_pointer\<close> and \<^verbatim>\<open>get_value\<close>,
  the read through the data pointer and the strides; they are parameters here. The shared
  iterate domain holds the IJ caches, keyed by the index of the arg.
\<close>

record ('p, 'v) iterate_domain =
  get_data_pointer :: "accessor \<Rightarrow> 'p"
  get_value :: "accessor \<Rightarrow> 'p \<Rightarrow> 'v"

record 'v shared_iterate_domain =
  get_ij_cache :: "nat \<rightharpoonup> 'v cache_storage"

record ('p, 'v) iterate_domain_cuda =
  super :: "('p, 'v) iterate_domain"
  m_block_size_i :: nat
  m_block_size_j :: nat
  m_pshared_iterate_domain :: "'v shared_iterate_domain"
  m_thread_pos :: "int \<times> int"

text \<open>
  \<^verbatim>\<open>get_cache_value_impl\<close>: the overload for an accessor in the bypass set reads
  through the base class; the other takes the IJ cache of the accessor's index from the
  shared iterate domain, which does not compile when there is no such cache.
\<close>

definition get_cache_value_impl ::
  "'s iterate_domain_arguments \<Rightarrow> ('p, 'v) iterate_domain_cuda \<Rightarrow> accessor \<Rightarrow> static_error + 'v" where
  "get_cache_value_impl ida d acc =
     (if index_type acc \<in> bypass_caches_set ida then
        Inr (get_value (super d) acc (get_data_pointer (super d) acc))
      else
        (case get_ij_cache (m_pshared_iterate_domain d) (index_type acc) of
           None \<Rightarrow> Inl (no_such_key (index_type acc))
         | Some c \<Rightarrow> Inr (at c (m_thread_pos d) (offsets acc))))"


section \<open>Local domains (local_domain)\<close>

text \<open>
  Modelled from the spec: \<^verbatim>\<open>is_arg\<close> (\<^verbatim>\<open>arg.hpp\<close>) and \<^verbatim>\<open>is_sequence_of\<close> are not among
  the sources. A placeholder is a compile-time identifier mapping an index to a storage
  type; a type given where a placeholder is expected is either such an \<^verbatim>\<open>arg\<close> or any
  other type, and a sequence is a sequence of placeholders when each element is one.
\<close>

datatype 's esf_arg_type = arg_type "'s arg" | not_an_arg string

fun is_arg :: "'s esf_arg_type \<Rightarrow> bool" where
  "is_arg (arg_type a) = True"
| "is_arg (not_an_arg t) = False"

definition is_sequence_of :: "'t list \<Rightarrow> ('t \<Rightarrow> bool) \<Rightarrow> bool" where
  "is_sequence_of xs p = list_all p xs"

text \<open>
  A storage type as far as the local domain looks at it: its name and its member type
  \<^verbatim>\<open>meta_data_t\<close>. \<^verbatim>\<open>StoragePointers\<close> is a sequence of pointers to such types.
\<close>

record storage_t =
  storage_name :: string
  meta_data_t :: string

text \<open>
  A pointer to an object that can be cloned to the GPU, as the actual arguments and the
  actual metadata are: the address of the object on the host and the object's member
  \<^verbatim>\<open>gpu_object_ptr\<close>.
\<close>

record clonable_ptr =
  host_ptr :: nat
  gpu_object_ptr :: nat

text \<open>
  Applying a functor to each element of a sequence, in order (\<^verbatim>\<open>boost::mpl::fold\<close> with
  \<^verbatim>\<open>push_back\<close>, \<^verbatim>\<open>boost::fusion::for_each\<close>); the whole is rejected where the functor
  cannot be instantiated for an element.
\<close>

primrec for_each :: "('x \<Rightarrow> static_error + 'y) \<Rightarrow> 'x list \<Rightarrow> static_error + 'y list" where
  "for_each f [] = Inr []"
| "for_each f (x # xs) =
     (case f x of
        Inl e \<Rightarrow> Inl e
      | Inr y \<Rightarrow> (case for_each f xs of Inl e \<Rightarrow> Inl e | Inr ys \<Rightarrow> Inr (y # ys)))"

text \<open>
  \<^verbatim>\<open>local_domain_aux::extract_types<StoragePointers>::apply<ElemType>\<close>: the type that
  \<^verbatim>\<open>StoragePointers\<close> holds at the index of the placeholder. The storage type that the
  placeholder itself names is not looked at.
\<close>

definition extract_types :: "storage_t list \<Rightarrow> 's arg \<Rightarrow> static_error + storage_t" where
  "extract_types StorageList ElemType =
     (if arg_index ElemType < length StorageList then Inr (StorageList ! arg_index ElemType)
      else Inl (no_such_key (arg_index ElemType)))"

text \<open>
  An instantiated \<^verbatim>\<open>local_domain<StoragePointers, MetaData, EsfArgs, IsStateful>\<close> with
  the types that its base class \<^verbatim>\<open>local_domain_base\<close> computes, \<^verbatim>\<open>mpl_storages\<close> (the
  types of the local args) and \<^verbatim>\<open>local_metadata_mpl_t\<close> (the metadata types of these
  storages), and with its members \<^verbatim>\<open>m_local_args\<close> and \<^verbatim>\<open>m_local_metadata\<close>.
\<close>

record ('md, 's) local_domain =
  storage_pointers_t :: "storage_t list"
  meta_storage_pointers_t :: 'md
  esf_args :: "'s arg list"
  IsStateful :: bool
  mpl_storages :: "storage_t list"
  local_metadata_mpl_t :: "string list"
  m_local_args :: "nat list"
  m_local_metadata :: "nat list"

text \<open>
  The placeholders of a sequence of types. Once the static assertion has passed, every
  element of \<^verbatim>\<open>EsfArgs\<close> is one.
\<close>

fun args_of :: "'s esf_arg_type list \<Rightarrow> 's arg list" where
  "args_of [] = []"
| "args_of (arg_type a # ts) = a # args_of ts"
| "args_of (not_an_arg t # ts) = args_of ts"

text \<open>
  Instantiating the class template. The static assertion on \<^verbatim>\<open>EsfArgs\<close> rejects a
  sequence with an element that is not a placeholder (the assertion on \<^verbatim>\<open>MetaData\<close> is
  commented out in the source). The base class folds over the placeholders and takes the
  type of each local arg from \<^verbatim>\<open>StoragePointers\<close>, then the \<^verbatim>\<open>meta_data_t\<close> of each of
  these types. The members are default-constructed: no pointer is assigned yet.
\<close>

definition local_domain ::
  "storage_t list \<Rightarrow> 'md \<Rightarrow> 's esf_arg_type list \<Rightarrow> bool \<Rightarrow>
     static_error + ('md, 's) local_domain" where
  "local_domain StoragePointers MetaData EsfArgs stateful =
     (case GRIDTOOLS_STATIC_ASSERT (is_sequence_of EsfArgs is_arg)
             ''Local domain contains wront type for parameter placeholders'' of
        Inl e \<Rightarrow> Inl e
      | Inr _ \<Rightarrow>
          (case for_each (extract_types StoragePointers) (args_of EsfArgs) of
             Inl e \<Rightarrow> Inl e
           | Inr storages \<Rightarrow>
               Inr \<lparr>storage_pointers_t = StoragePointers, meta_storage_pointers_t = MetaData,
                    esf_args = args_of EsfArgs, IsStateful = stateful,
                    mpl_storages = storages,
                    local_metadata_mpl_t = map meta_data_t storages,
                    m_local_args = [], m_local_metadata = []\<rparr>))"

text \<open>
  \<^verbatim>\<open>assign_storage_pointers\<close>: the local arg becomes the element of the argument list at
  the index of the placeholder, \<^verbatim>\<open>boost::fusion::at<index>(m_arg_list)\<close>, and under
  \<^verbatim>\<open>__CUDACC__\<close> its \<^verbatim>\<open>gpu_object_ptr\<close>. The index is a compile-time constant: a list
  without that element does not compile.
\<close>

definition assign_storage_pointers ::
  "bool \<Rightarrow> clonable_ptr list \<Rightarrow> 's arg \<Rightarrow> static_error + nat" where
  "assign_storage_pointers CUDACC m_arg_list ze =
     (if arg_index ze < length m_arg_list then
        Inr (if CUDACC then gpu_object_ptr (m_arg_list ! arg_index ze)
             else host_ptr (m_arg_list ! arg_index ze))
      else Inl (no_such_key (arg_index ze)))"

text \<open>
  \<^verbatim>\<open>assign_fusion_maps\<close>: the local metadata pointer becomes the element of the actual
  metadata keyed by its own type, \<^verbatim>\<open>boost::fusion::at_key<Local>(m_actual)\<close>, and under
  \<^verbatim>\<open>__CUDACC__\<close> its \<^verbatim>\<open>gpu_object_ptr\<close>. Actual metadata without that key do not compile.
\<close>

definition assign_fusion_maps ::
  "bool \<Rightarrow> (string \<rightharpoonup> clonable_ptr) \<Rightarrow> string \<Rightarrow> static_error + nat" where
  "assign_fusion_maps CUDACC m_actual Local =
     (case m_actual Local of
        None \<Rightarrow> Inl (no_such_type Local)
      | Some p \<Rightarrow> Inr (if CUDACC then gpu_object_ptr p else host_ptr p))"

text \<open>
  \<^verbatim>\<open>init(arg_list, meta_data, ...)\<close>: the two loops of \<^verbatim>\<open>local_domain_base::init\<close>. What
  can fail is the instantiation of the member template for the types of the actual
  arguments; the code that runs only assigns pointers.
\<close>

definition init ::
  "bool \<Rightarrow> ('md, 's) local_domain \<Rightarrow> clonable_ptr list \<Rightarrow> (string \<rightharpoonup> clonable_ptr) \<Rightarrow>
     static_error + ('md, 's) local_domain" where
  "init CUDACC ld actual_args actual_metadata =
     (case for_each (assign_storage_pointers CUDACC actual_args) (esf_args ld) of
        Inl e \<Rightarrow> Inl e
      | Inr args \<Rightarrow>
          (case for_each (assign_fusion_maps CUDACC actual_metadata) (local_metadata_mpl_t ld) of
             Inl e \<Rightarrow> Inl e
           | Inr metas \<Rightarrow> Inr (ld\<lparr>m_local_args := args, m_local_metadata := metas\<rparr>)))"


section \<open>Integer sequences: results\<close>

lemma concat_seq_upt:
  "concat_seq w [0..<a] [0..<b] = (if a + b \<le> 2 ^ w \<or> b = 0 then Inr [0..<a + b] else Inl narrowing_conversion)"
proof -
  have m: "map (\<lambda>i. a + i) [0..<b] = [a..<a + b]"
    by (induction b) simp_all
  have u: "[0..<a + b] = [0..<a] @ [a..<a + b]"
    by (rule upt_add_eq_append) simp
  have "list_all (\<lambda>i. a + i < 2 ^ w) [0..<b] \<longleftrightarrow> a + b \<le> 2 ^ w \<or> b = 0"
  proof (cases b)
    case 0
    then show ?thesis by simp
  next
    case (Suc b')
    have "(\<forall>i<b. a + i < 2 ^ w) \<longleftrightarrow> a + b' < 2 ^ w"
      using Suc by (auto simp: less_Suc_eq_le intro: le_less_trans)
    then show ?thesis
      using Suc by (simp add: list_all_iff) (auto simp: less_Suc_eq_le)
  qed
  then show ?thesis
    by (simp add: concat_seq_def m u)
qed

lemma make_integer_sequence_cases:
  "make_integer_sequence w N = (if N \<le> 2 ^ w then Inr [0..<N] else Inl narrowing_conversion)"
proof (induction w N rule: make_integer_sequence.induct)
  case (1 w N)
  show ?case
  proof (cases "N = 0 \<or> N = 1")
    case True
    then show ?thesis
      by (auto simp: make_integer_sequence.simps [of w N])
  next
    case False
    let ?h = "N div 2"
    let ?r = "N - N div 2"
    have sum: "?h + ?r = N" and r: "?r \<noteq> 0" and hr: "?h \<le> ?r" "?r \<le> N" "?h \<le> N"
      using False by auto
    have ih1: "make_integer_sequence w ?h = (if ?h \<le> 2 ^ w then Inr [0..<?h] else Inl narrowing_conversion)"
      using False "1.IH"(1) by simp
    show ?thesis
    proof (cases "?h \<le> 2 ^ w")
      case h: True
      then have first: "make_integer_sequence w ?h = Inr [0..<?h]"
        using ih1 by simp
      have ih2: "make_integer_sequence w ?r = (if ?r \<le> 2 ^ w then Inr [0..<?r] else Inl narrowing_conversion)"
        using False "1.IH"(2) [OF _ _ first] by simp
      show ?thesis
      proof (cases "?r \<le> 2 ^ w")
        case True
        then have "make_integer_sequence w N = concat_seq w [0..<?h] [0..<?r]"
          using False first ih2 by (simp add: make_integer_sequence.simps [of w N])
        also have "\<dots> = (if ?h + ?r \<le> 2 ^ w \<or> ?r = 0 then Inr [0..<?h + ?r] else Inl narrowing_conversion)"
          by (rule concat_seq_upt)
        finally show ?thesis
          using r by (simp only: sum) simp
      next
        case False
        with hr have "\<not> N \<le> 2 ^ w" by linarith
        with False \<open>\<not> (N = 0 \<or> N = 1)\<close> first ih2 show ?thesis
          by (simp add: make_integer_sequence.simps [of w N])
      qed
    next
      case False
      with hr have "\<not> N \<le> 2 ^ w" by linarith
      with False \<open>\<not> (N = 0 \<or> N = 1)\<close> ih1 show ?thesis
        by (simp add: make_integer_sequence.simps [of w N])
    qed
  qed
qed

text \<open>
  Claim C8, as amended. For every unsigned integer type \<^verbatim>\<open>UInt\<close>, of \<open>UInt\<close> bits, and every
  \<open>N\<close> up to \<open>2 ^ UInt\<close>, \<^verbatim>\<open>make_integer_sequence<UInt, N>\<close> is the contiguous sequence
  \<open>0, 1, ..., N - 1\<close>: concatenating the sequences for \<open>N/2\<close> and \<open>N - N/2\<close>, the second
  shifted by the length of the first, rebuilds it. For a larger \<open>N\<close> the instantiation is
  rejected, since an index does not fit \<^verbatim>\<open>UInt\<close>.
\<close>

theorem make_integer_sequence_upt:
  "make_integer_sequence UInt N =
     (if N \<le> 2 ^ UInt then Inr [0..<N] else Inl narrowing_conversion)"
  by (rule make_integer_sequence_cases)

theorem make_integer_sequence_upt_witness:
  "make_integer_sequence 8 256 = Inr [0..<256] \<and>
   make_integer_sequence 3 5 = Inr [0, 1, 2, 3, 4]"
  using make_integer_sequence_upt [of 8 256] make_integer_sequence_upt [of 3 5]
  by (simp add: upt_rec)

text \<open>
  The claim as first stated, for every \<open>N\<close>, fails for \<^verbatim>\<open>unsigned char\<close> and \<open>N = 257\<close>:
  the last index, 256, does not fit.
\<close>

theorem make_integer_sequence_upt_counterexample:
  "make_integer_sequence 8 257 = Inl narrowing_conversion \<and>
   make_integer_sequence 8 257 \<noteq> Inr [0..<257]"
  by (simp add: make_integer_sequence_cases)


section \<open>Cache declarations: results\<close>

lemma cache_map: "cache ct pol args = map (\<lambda>a. cache_impl ct a pol) args"
  by (induction args) simp_all

lemma define_caches_concat: "define_caches cs = concat cs"
  by (induction cs) simp_all

text \<open>
  Claim C5. \<^verbatim>\<open>define_caches\<close> produces the descriptors of its cache constructors in the
  order of declaration, each with its declared scope, placeholder and policy: for every
  list of constructors \<^verbatim>\<open>cache<scope, policy>(args...)\<close> the result is the descriptors of
  the first constructor, in the order of its arguments, followed by those of the second,
  and so on. In particular
  \<^verbatim>\<open>define_caches(cache<IJ, fill>(arg0), cache<IJK, flush>(arg1), cache<K, local>(arg2))\<close>
  is exactly the sequence \<^verbatim>\<open>cache_impl<IJ, arg0, fill>\<close>, \<^verbatim>\<open>cache_impl<IJK, arg1, flush>\<close>,
  \<^verbatim>\<open>cache_impl<K, arg2, local>\<close>.
\<close>

theorem define_caches_test_sequence:
  "define_caches (map (\<lambda>(ct, pol, args). cache ct pol args) decls) =
     concat (map (\<lambda>(ct, pol, args). map (\<lambda>a. cache_impl ct a pol) args) decls) \<and>
   define_caches (map (\<lambda>(ct, pol, a). cache ct pol [a]) singles) =
     map (\<lambda>(ct, pol, a). cache_impl ct a pol) singles \<and>
   define_caches [cache IJ fill [arg0], cache IJK flush [arg1], cache K local [arg2]] =
     [cache_impl IJ arg0 fill, cache_impl IJK arg1 flush, cache_impl K arg2 local]"
proof (intro conjI)
  show "define_caches (map (\<lambda>(ct, pol, args). cache ct pol args) decls) =
     concat (map (\<lambda>(ct, pol, args). map (\<lambda>a. cache_impl ct a pol) args) decls)"
    by (simp add: define_caches_concat cache_map split_def)
  show "define_caches (map (\<lambda>(ct, pol, a). cache ct pol [a]) singles) =
     map (\<lambda>(ct, pol, a). cache_impl ct a pol) singles"
    by (induction singles) (simp_all add: split_def)
  show "define_caches [cache IJ fill [arg0], cache IJK flush [arg1], cache K local [arg2]] =
     [cache_impl IJ arg0 fill, cache_impl IJK arg1 flush, cache_impl K arg2 local]"
    by simp
qed

text \<open>
  Claim C6. One cache constructor applied to several placeholders gives one descriptor per
  placeholder, in the order of the arguments, each with the scope and the policy of the
  constructor; in particular \<^verbatim>\<open>cache<IJ, fill>(arg0, arg1, arg2)\<close> is the sequence of
  \<^verbatim>\<open>cache_impl<IJ, arg0, fill>\<close>, \<^verbatim>\<open>cache_impl<IJ, arg1, fill>\<close> and
  \<^verbatim>\<open>cache_impl<IJ, arg2, fill>\<close>.
\<close>

theorem cache_one_descriptor_per_placeholder:
  "cache ct pol args = map (\<lambda>a. cache_impl ct a pol) args \<and>
   cache IJ fill [arg0, arg1, arg2] =
     [cache_impl IJ arg0 fill, cache_impl IJ arg1 fill, cache_impl IJ arg2 fill]"
  by (induction args) simp_all


section \<open>Snapshot buffers: results\<close>

lemma advance_loop_3: "advance_loop 3 1 [p0, p1, p2] = [p0, p0, p0]"
  by (simp add: advance_loop.simps [of _ "Suc 0"] advance_loop.simps [of _ "Suc (Suc 0)"] advance_loop.simps [of _ "Suc (Suc (Suc 0))"] eval_nat_numeral)

lemma advance_3: "advance \<lparr>m_fields = [p0, p1, p2]\<rparr> = \<lparr>m_fields = [p2, p0, p0]\<rparr>"
  using advance_loop_3 [of p0 p1 p2] by (simp add: advance_def n_args_def Let_def eval_nat_numeral)

text \<open>With two snapshots the loop runs once and \<^verbatim>\<open>advance\<close> exchanges the two pointers.\<close>

lemma advance_2: "advance \<lparr>m_fields = [p0, p1]\<rparr> = \<lparr>m_fields = [p1, p0]\<rparr>"
  by (simp add: advance_def n_args_def Let_def eval_nat_numeral
      advance_loop.simps [of _ "Suc 0"] advance_loop.simps [of _ "Suc (Suc 0)"])

text \<open>
  Claim C10 says that \<^verbatim>\<open>advance\<close> rotates the snapshot pointers in a ring. With three
  snapshots the ascending loop copies slot 0 into slot 1 and then the new slot 1 into
  slot 2: the pointers 10, 20, 30 become 30, 10, 10, the pointer 20 is lost, and three calls
  do not restore the buffer.
\<close>

theorem advance_three_snapshots:
  "advance \<lparr>m_fields = [10, 20, 30 :: nat]\<rparr> = \<lparr>m_fields = [30, 10, 10]\<rparr> \<and>
   advance (advance (advance \<lparr>m_fields = [10, 20, 30 :: nat]\<rparr>)) = \<lparr>m_fields = [30, 10, 10]\<rparr> \<and>
   advance (advance (advance \<lparr>m_fields = [10, 20, 30 :: nat]\<rparr>)) \<noteq> \<lparr>m_fields = [10, 20, 30]\<rparr>"
  by (simp add: advance_3)


section \<open>Storage: results\<close>

lemma self_inverse_cases:
  assumes "self_inverse l"
  shows "l = layout_map 0 1 2 \<or> l = layout_map 0 2 1 \<or> l = layout_map 1 0 2 \<or> l = layout_map 2 1 0"
proof (cases l)
  case (layout_map a b c)
  with assms have "a < 3" "b < 3" "c < 3"
    by (simp_all add: self_inverse_def)
  then have "a \<in> {0, 1, 2}" "b \<in> {0, 1, 2}" "c \<in> {0, 1, 2}"
    by auto
  with assms layout_map show ?thesis
    by (auto simp: self_inverse_def)
qed

lemma word_mult_div_right:
  fixes x y :: "'a::len word"
  assumes "y \<noteq> 0" and "unat x * unat y < 2 ^ LENGTH('a)"
  shows "(x * y) div y = x"
proof -
  have "unat (x * y) = unat x * unat y"
    using assms(2) by (simp add: unat_mult_lem)
  moreover have "unat y \<noteq> 0"
    using assms(1) by (simp add: unat_eq_zero)
  ultimately have "unat ((x * y) div y) = unat x"
    by (simp add: unat_div)
  then show ?thesis
    by (simp add: word_unat_eq_iff)
qed

lemma word_mult_nonzero:
  fixes x y :: "'a::len word"
  assumes "x \<noteq> 0" "y \<noteq> 0" and "unat x * unat y < 2 ^ LENGTH('a)"
  shows "x * y \<noteq> 0"
proof -
  have "unat (x * y) = unat x * unat y"
    using assms(3) by (simp add: unat_mult_lem)
  moreover have "unat x \<noteq> 0" "unat y \<noteq> 0"
    using assms(1,2) by (simp_all add: unat_eq_zero)
  ultimately have "unat (x * y) \<noteq> 0" by simp
  then show ?thesis by (simp add: unat_eq_zero)
qed

lemma fit_inner:
  fixes a b c :: "'a::len word"
  assumes "c \<noteq> 0" and "unat a * unat b * unat c < 2 ^ LENGTH('a)"
  shows "unat a * unat b < 2 ^ LENGTH('a)"
proof -
  have "0 < unat c"
    using assms(1) by (simp add: unat_gt_0)
  then have "unat a * unat b \<le> unat a * unat b * unat c"
    by simp
  from this assms(2) show ?thesis
    by (rule le_less_trans)
qed

lemma stride_quotients:
  fixes x y z :: "'a::len word"
  assumes "x \<noteq> 0" "y \<noteq> 0"
    and xy: "unat x * unat y < 2 ^ LENGTH('a)"
    and xyz: "unat x * unat y * unat z < 2 ^ LENGTH('a)"
  shows "x * y \<noteq> 0" and "x * y div x = y" and "x * y * z div (x * y) = z"
proof -
  show nz: "x * y \<noteq> 0"
    using assms(1,2) xy by (rule word_mult_nonzero)
  have "unat y * unat x < 2 ^ LENGTH('a)"
    using xy by (simp add: mult.commute)
  with assms(1) have "y * x div x = y"
    by (rule word_mult_div_right)
  then show "x * y div x = y"
    by (simp add: mult.commute)
  have u: "unat (x * y) = unat x * unat y"
    using xy by (simp add: unat_mult_lem)
  have "unat z * unat (x * y) < 2 ^ LENGTH('a)"
    using xyz by (simp add: u mult.commute)
  with nz have "z * (x * y) div (x * y) = z"
    by (rule word_mult_div_right)
  then show "x * y * z div (x * y) = z"
    by (simp add: mult.commute)
qed

lemma roundtrip_strides:
  fixes x y z :: "'a::len word"
  assumes "x \<noteq> 0" "y \<noteq> 0"
    and "unat x * unat y < 2 ^ LENGTH('a)"
    and "unat x * unat y * unat z < 2 ^ LENGTH('a)"
    and "P = x * y * z"
  shows "dims_coordwise (layout_map 0 1 2) 0 [P, x * y, x] = Inr z"
    and "dims_coordwise (layout_map 0 1 2) 1 [P, x * y, x] = Inr y"
    and "dims_coordwise (layout_map 0 1 2) 2 [P, x * y, x] = Inr x"
    and "dims_coordwise (layout_map 0 2 1) 0 [P, x * y, x] = Inr z"
    and "dims_coordwise (layout_map 0 2 1) 1 [P, x * y, x] = Inr x"
    and "dims_coordwise (layout_map 0 2 1) 2 [P, x * y, x] = Inr y"
    and "dims_coordwise (layout_map 1 0 2) 0 [P, x * y, x] = Inr y"
    and "dims_coordwise (layout_map 1 0 2) 1 [P, x * y, x] = Inr z"
    and "dims_coordwise (layout_map 1 0 2) 2 [P, x * y, x] = Inr x"
    and "dims_coordwise (layout_map 2 1 0) 0 [P, x * y, x] = Inr x"
    and "dims_coordwise (layout_map 2 1 0) 1 [P, x * y, x] = Inr y"
    and "dims_coordwise (layout_map 2 1 0) 2 [P, x * y, x] = Inr z"
  using stride_quotients [OF assms(1-4)] assms(1,5)
  by (simp_all add: dims_coordwise_def find_layout_def rd_def bindE_def)

lemma torus_bound:
  fixes A B C a b c :: nat
  assumes "a < A" "b < B" "c < C"
  shows "C * B * a + C * b + c < A * B * C"
proof -
  have "C * b + c < C * b + C"
    using assms(3) by simp
  also have "\<dots> = C * Suc b"
    by simp
  also have "\<dots> \<le> C * B"
    using assms(2) by (intro mult_le_mono2) simp
  finally have "C * b + c < C * B" .
  then have "C * B * a + C * b + c < C * B * a + C * B"
    by simp
  also have "\<dots> = C * B * Suc a"
    by simp
  also have "\<dots> \<le> C * B * A"
    using assms(1) by (intro mult_le_mono2) simp
  also have "\<dots> = A * B * C"
    by (simp add: ac_simps)
  finally show ?thesis .
qed

lemma wrapped_index_bound:
  fixes x y z i j k :: "'a::len word"
  assumes nz: "x \<noteq> 0" "y \<noteq> 0" "z \<noteq> 0"
    and fit: "unat z * unat y * unat x < 2 ^ LENGTH('a)"
  shows "x * y * (i mod z) + x * (j mod y) + k mod x < z * y * x"
proof -
  let ?n = "unat x * unat y * (unat i mod unat z) + unat x * (unat j mod unat y)
              + unat k mod unat x"
  have pos: "0 < unat x" "0 < unat y" "0 < unat z"
    using nz by (simp_all add: unat_gt_0)
  have n: "?n < unat z * unat y * unat x"
    using pos by (intro torus_bound) simp_all
  with fit have "?n < 2 ^ LENGTH('a)"
    by simp
  then have u: "unat (of_nat ?n :: 'a word) = ?n"
    by (simp only: unat_of_nat mod_less)
  have idx: "x * y * (i mod z) + x * (j mod y) + k mod x = (of_nat ?n :: 'a word)"
    by (simp add: unat_mod [symmetric])
  have zy: "unat (z * y) = unat z * unat y"
    using fit_inner [OF nz(1) fit] by (simp add: unat_mult_lem)
  have "unat (z * y) * unat x < 2 ^ LENGTH('a)"
    using fit by (simp only: zy)
  then have "unat (z * y * x) = unat (z * y) * unat x"
    by (rule unat_mult_lem [THEN iffD1])
  with zy have "unat (z * y * x) = unat z * unat y * unat x"
    by simp
  with n u show ?thesis
    by (simp add: idx word_less_nat_alt)
qed

lemma constructed_size:
  "base_storage l tmp dim1 dim2 dim3 v nm = Inr s \<Longrightarrow> storage_size s = Inr (dim1 * dim2 * dim3)"
  by (auto simp: base_storage_def storage_size_def rd_def bindE_def Let_def split: if_splits)

lemma dims_round_trip:
  fixes dim1 dim2 dim3 :: "'a::len word"
  assumes "self_inverse l"
    and inner: "[dim1, dim2, dim3] ! get l 2 \<noteq> 0"
    and middle: "[dim1, dim2, dim3] ! get l 1 \<noteq> 0"
    and fit2: "unat ([dim1, dim2, dim3] ! get l 2) * unat ([dim1, dim2, dim3] ! get l 1)
                 < 2 ^ LENGTH('a)"
    and fit: "unat dim1 * unat dim2 * unat dim3 < 2 ^ LENGTH('a)"
    and s: "base_storage l tmp dim1 dim2 dim3 v nm = Inr s"
  shows "dims s 0 = Inr dim1 \<and> dims s 1 = Inr dim2 \<and> dims s 2 = Inr dim3"
proof -
  have fits: "unat dim3 * unat dim2 * unat dim1 < 2 ^ LENGTH('a)"
    "unat dim2 * unat dim3 * unat dim1 < 2 ^ LENGTH('a)"
    "unat dim3 * unat dim1 * unat dim2 < 2 ^ LENGTH('a)"
    using fit by (simp_all add: ac_simps)
  have prods: "dim1 * dim2 * dim3 = dim3 * dim2 * dim1"
    "dim1 * dim2 * dim3 = dim2 * dim3 * dim1"
    "dim1 * dim2 * dim3 = dim3 * dim1 * dim2"
    by (simp_all add: ac_simps)
  from assms(1) consider "l = layout_map 0 1 2" | "l = layout_map 0 2 1"
    | "l = layout_map 1 0 2" | "l = layout_map 2 1 0"
    using self_inverse_cases by blast
  then show ?thesis
  proof cases
    case 1
    with inner middle fit2 have h: "dim3 \<noteq> 0" "dim2 \<noteq> 0"
      "unat dim3 * unat dim2 < 2 ^ LENGTH('a)"
      by simp_all
    from 1 s have "layout s = l" "m_strides s = [dim1 * dim2 * dim3, dim3 * dim2, dim3]"
      by (auto simp: base_storage_def rd_def bindE_def Let_def)
    with 1 show ?thesis
      using roundtrip_strides(1-3) [OF h fits(1) prods(1)]
      by (simp add: dims_def)
  next
    case 2
    with inner middle fit2 have h: "dim2 \<noteq> 0" "dim3 \<noteq> 0"
      "unat dim2 * unat dim3 < 2 ^ LENGTH('a)"
      by simp_all
    from 2 s have "layout s = l" "m_strides s = [dim1 * dim2 * dim3, dim2 * dim3, dim2]"
      by (auto simp: base_storage_def rd_def bindE_def Let_def)
    with 2 show ?thesis
      using roundtrip_strides(4-6) [OF h fits(2) prods(2)]
      by (simp add: dims_def)
  next
    case 3
    with inner middle fit2 have h: "dim3 \<noteq> 0" "dim1 \<noteq> 0"
      "unat dim3 * unat dim1 < 2 ^ LENGTH('a)"
      by simp_all
    from 3 s have "layout s = l" "m_strides s = [dim1 * dim2 * dim3, dim3 * dim1, dim3]"
      by (auto simp: base_storage_def rd_def bindE_def Let_def)
    with 3 show ?thesis
      using roundtrip_strides(7-9) [OF h fits(3) prods(3)]
      by (simp add: dims_def)
  next
    case 4
    with inner middle fit2 have h: "dim1 \<noteq> 0" "dim2 \<noteq> 0"
      "unat dim1 * unat dim2 < 2 ^ LENGTH('a)"
      by simp_all
    from 4 s have "layout s = l" "m_strides s = [dim1 * dim2 * dim3, dim1 * dim2, dim1]"
      by (auto simp: base_storage_def rd_def bindE_def Let_def)
    with 4 show ?thesis
      using roundtrip_strides(10-12) [OF h fit refl]
      by (simp add: dims_def)
  qed
qed

text \<open>
  Claim C9, as amended. For every storage built from three extents, \<^verbatim>\<open>size()\<close> is
  \<^verbatim>\<open>dim1*dim2*dim3\<close>, computed in \<^verbatim>\<open>uint_t\<close>. When moreover the layout is its own inverse,
  the two extents that the constructor multiplies into \<^verbatim>\<open>m_strides[1]\<close>, that is
  \<^verbatim>\<open>dims[get<2>()]\<close> and \<^verbatim>\<open>dims[get<1>()]\<close>, are not zero and their product fits
  \<^verbatim>\<open>uint_t\<close>, and the product of the three extents fits \<^verbatim>\<open>uint_t\<close>, then \<^verbatim>\<open>dims<c>()\<close>,
  that is \<^verbatim>\<open>dims_coordwise<c>(m_strides)\<close>, is the extent along each coordinate \<open>c\<close>.
\<close>

theorem extents_round_trip:
  fixes dim1 dim2 dim3 :: "'a::len word"
  shows "(base_storage l tmp dim1 dim2 dim3 v nm = Inr s \<longrightarrow>
            storage_size s = Inr (dim1 * dim2 * dim3)) \<and>
         (self_inverse l \<and>
          [dim1, dim2, dim3] ! get l 2 \<noteq> 0 \<and>
          [dim1, dim2, dim3] ! get l 1 \<noteq> 0 \<and>
          unat ([dim1, dim2, dim3] ! get l 2) * unat ([dim1, dim2, dim3] ! get l 1)
            < 2 ^ LENGTH('a) \<and>
          unat dim1 * unat dim2 * unat dim3 < 2 ^ LENGTH('a) \<and>
          base_storage l tmp dim1 dim2 dim3 v nm = Inr s \<longrightarrow>
            dims s 0 = Inr dim1 \<and> dims s 1 = Inr dim2 \<and> dims s 2 = Inr dim3)"
  using constructed_size [of l tmp dim1 dim2 dim3 v nm s]
    dims_round_trip [of l dim1 dim2 dim3 tmp v nm s]
  by blast

theorem extents_round_trip_witness:
  "self_inverse (layout_map 2 1 0) \<and>
   base_storage (layout_map 2 1 0) False (2 :: 32 word) 3 4 (0 :: nat) ''u'' =
     Inr \<lparr>layout = layout_map 2 1 0, IsTemporary = False, m_data = replicate 24 (0 :: nat),
      is_set = True, m_name = ''u'', m_strides = [24, 6, 2 :: 32 word]\<rparr> \<and>
   storage_size
     \<lparr>layout = layout_map 2 1 0, IsTemporary = False, m_data = replicate 24 (0 :: nat),
      is_set = True, m_name = ''u'', m_strides = [24, 6, 2 :: 32 word]\<rparr> = Inr (2 * 3 * 4) \<and>
   dims
     \<lparr>layout = layout_map 2 1 0, IsTemporary = False, m_data = replicate 24 (0 :: nat),
      is_set = True, m_name = ''u'', m_strides = [24, 6, 2 :: 32 word]\<rparr> 0 = Inr 2 \<and>
   dims
     \<lparr>layout = layout_map 2 1 0, IsTemporary = False, m_data = replicate 24 (0 :: nat),
      is_set = True, m_name = ''u'', m_strides = [24, 6, 2 :: 32 word]\<rparr> 1 = Inr 3 \<and>
   dims
     \<lparr>layout = layout_map 2 1 0, IsTemporary = False, m_data = replicate 24 (0 :: nat),
      is_set = True, m_name = ''u'', m_strides = [24, 6, 2 :: 32 word]\<rparr> 2 = Inr 4"
  using extents_round_trip [of "layout_map 2 1 0" False 2 3 4 0 "''u''"
     "\<lparr>layout = layout_map 2 1 0, IsTemporary = False, m_data = replicate 24 (0 :: nat),
      is_set = True, m_name = ''u'', m_strides = [24, 6, 2 :: 32 word]\<rparr>"]
  by (simp add: self_inverse_def base_storage_def rd_def bindE_def Let_def)

text \<open>
  The claim as first stated, for any layout and any extents, fails in each of these ways:
  under \<^verbatim>\<open>layout_map<1,2,0>\<close> and \<^verbatim>\<open>layout_map<2,0,1>\<close>, which are not their own inverses,
  one of the extents is read from \<^verbatim>\<open>m_strides[3]\<close> and another comes out wrong (1 for
  the extent 4, 8 for the extent 4); when one of the two inner extents is zero the
  quotient divides by zero; and when the product of the extents, or of the two inner ones,
  wraps around in 32 bits the quotient of the strides is not the extent.
\<close>

theorem extents_round_trip_counterexample:
  "base_storage (layout_map 1 2 0) False (2 :: 32 word) 3 4 (0 :: nat) ''u'' =
     Inr \<lparr>layout = layout_map 1 2 0, IsTemporary = False, m_data = replicate 24 0,
          is_set = True, m_name = ''u'', m_strides = [24, 8, 2]\<rparr> \<and>
   dims \<lparr>layout = layout_map 1 2 0, IsTemporary = False, m_data = replicate 24 (0 :: nat),
         is_set = True, m_name = ''u'', m_strides = [24, 8, 2 :: 32 word]\<rparr> 1 =
     Inl OutOfBounds \<and>
   dims \<lparr>layout = layout_map 1 2 0, IsTemporary = False, m_data = replicate 24 (0 :: nat),
         is_set = True, m_name = ''u'', m_strides = [24, 8, 2 :: 32 word]\<rparr> 2 =
     Inr 1 \<and>
   bindE (base_storage (layout_map 2 0 1) False (2 :: 32 word) 3 4 (0 :: nat) ''u'')
     (\<lambda>s. dims s 0) = Inl OutOfBounds \<and>
   bindE (base_storage (layout_map 2 0 1) False (2 :: 32 word) 3 4 (0 :: nat) ''u'')
     (\<lambda>s. dims s 2) = Inr 8 \<and>
   base_storage (layout_map 0 1 2) False (2 :: 32 word) 0 3 (0 :: nat) ''u'' =
     Inr \<lparr>layout = layout_map 0 1 2, IsTemporary = False, m_data = [],
          is_set = True, m_name = ''u'', m_strides = [0, 0, 3]\<rparr> \<and>
   dims \<lparr>layout = layout_map 0 1 2, IsTemporary = False, m_data = [] :: nat list,
         is_set = True, m_name = ''u'', m_strides = [0, 0, 3 :: 32 word]\<rparr> 0 =
     Inl DivisionByZero \<and>
   bindE (base_storage (layout_map 0 1 2) False (2 :: 32 word) 3 0 (0 :: nat) ''u'')
     (\<lambda>s. dims s 0) = Inl DivisionByZero \<and>
   base_storage (layout_map 0 1 2) False (65536 :: 32 word) 65536 1 (0 :: nat) ''u'' =
     Inr \<lparr>layout = layout_map 0 1 2, IsTemporary = False, m_data = [],
          is_set = True, m_name = ''u'', m_strides = [0, 65536, 1]\<rparr> \<and>
   dims \<lparr>layout = layout_map 0 1 2, IsTemporary = False, m_data = [] :: nat list,
         is_set = True, m_name = ''u'', m_strides = [0, 65536, 1 :: 32 word]\<rparr> 0 =
     Inr 0 \<and>
   bindE (base_storage (layout_map 0 1 2) False (0 :: 32 word) 65536 65536 (0 :: nat) ''u'')
     (\<lambda>s. dims s 0) = Inl DivisionByZero"
  by (simp add: base_storage_def dims_def dims_coordwise_def find_layout_def rd_def
      bindE_def Let_def)

lemma temporary_assert:
  "IsTemporary s \<Longrightarrow> storage_index False s i j k = Inl AssertionFailed"
  by (simp add: storage_index_def c_assert_def bindE_def Let_def)

lemma wrapped_index:
  fixes dim1 dim2 dim3 i j k :: "'a::len word"
  assumes nz: "dim1 \<noteq> 0" "dim2 \<noteq> 0" "dim3 \<noteq> 0"
    and fit: "unat dim1 * unat dim2 * unat dim3 < 2 ^ LENGTH('a)"
    and s: "base_storage (layout_map 0 1 2) True dim1 dim2 dim3 v nm = Inr s"
  shows "\<exists>idx. storage_index True s i j k = Inr idx \<and>
            storage_index True (s\<lparr>IsTemporary := False\<rparr>)
              (i mod dim1) (j mod dim2) (k mod dim3) = Inr idx \<and>
            idx < dim1 * dim2 * dim3"
proof -
  have fit': "unat dim3 * unat dim2 * unat dim1 < 2 ^ LENGTH('a)"
    using fit by (simp add: ac_simps)
  have prod: "dim1 * dim2 * dim3 = dim3 * dim2 * dim1"
    by (simp add: ac_simps)
  from s have fields: "layout s = layout_map 0 1 2" "IsTemporary s"
    "m_strides s = [dim1 * dim2 * dim3, dim3 * dim2, dim3]"
    by (auto simp: base_storage_def rd_def bindE_def Let_def)
  note dims = roundtrip_strides(1-3) [OF nz(3,2) fit_inner [OF nz(1) fit'] fit' prod]
  let ?idx = "dim3 * dim2 * (i mod dim1) + dim3 * (j mod dim2) + k mod dim3"
  have tmp: "storage_index True s i j k = Inr ?idx"
    using fields dims nz
    by (simp add: storage_index_def c_assert_def bindE_def Let_def find_layout_def rd_def modulus_def)
  have plain: "storage_index True (s\<lparr>IsTemporary := False\<rparr>)
      (i mod dim1) (j mod dim2) (k mod dim3) = Inr ?idx"
    using fields
    by (simp add: storage_index_def bindE_def Let_def find_layout_def rd_def)
  have "?idx < dim1 * dim2 * dim3"
    using wrapped_index_bound [OF nz(3,2,1) fit] .
  with tmp plain show ?thesis
    by simp
qed

text \<open>
  Claim C1, as amended. The branch of \<^verbatim>\<open>_index\<close> for a temporary storage begins with
  \<^verbatim>\<open>assert(false)\<close>: in a build with assertions every access to every temporary storage
  stops there and no index is computed. In a build without assertions, for a temporary
  storage built under \<^verbatim>\<open>layout_map<0,1,2>\<close> from non-zero extents whose product fits
  \<^verbatim>\<open>uint_t\<close>, the index of \<open>(i, j, k)\<close> is the index of the wrapped point
  \<open>(i mod dim1, j mod dim2, k mod dim3)\<close> and lies inside the buffer.
\<close>

theorem temporary_index:
  fixes dim1 dim2 dim3 i j k :: "'a::len word"
    and s t :: "('a word, 'v) base_storage"
  shows "(IsTemporary s \<longrightarrow> storage_index False s i j k = Inl AssertionFailed) \<and>
         (dim1 \<noteq> 0 \<and> dim2 \<noteq> 0 \<and> dim3 \<noteq> 0 \<and>
          unat dim1 * unat dim2 * unat dim3 < 2 ^ LENGTH('a) \<and>
          base_storage (layout_map 0 1 2) True dim1 dim2 dim3 v nm = Inr t \<longrightarrow>
            (\<exists>idx. storage_index True t i j k = Inr idx \<and>
               storage_index True (t\<lparr>IsTemporary := False\<rparr>)
                 (i mod dim1) (j mod dim2) (k mod dim3) = Inr idx \<and>
               idx < dim1 * dim2 * dim3))"
  using temporary_assert [of s i j k] wrapped_index [of dim1 dim2 dim3 v nm t i j k]
  by blast

theorem temporary_index_witness:
  "base_storage (layout_map 0 1 2) True (2 :: 32 word) 3 4 (0 :: nat) ''tmp'' =
     Inr \<lparr>layout = layout_map 0 1 2, IsTemporary = True, m_data = replicate 24 0,
          is_set = True, m_name = ''tmp'', m_strides = [24, 12, 4]\<rparr> \<and>
   storage_index False
     \<lparr>layout = layout_map 0 1 2, IsTemporary = True, m_data = replicate 24 (0 :: nat),
      is_set = True, m_name = ''tmp'', m_strides = [24, 12, 4 :: 32 word]\<rparr> 5 7 9 =
     Inl AssertionFailed \<and>
   storage_index True
     \<lparr>layout = layout_map 0 1 2, IsTemporary = True, m_data = replicate 24 (0 :: nat),
      is_set = True, m_name = ''tmp'', m_strides = [24, 12, 4 :: 32 word]\<rparr> 5 7 9 =
     Inr 17 \<and>
   storage_index True
     \<lparr>layout = layout_map 0 1 2, IsTemporary = False, m_data = replicate 24 (0 :: nat),
      is_set = True, m_name = ''tmp'', m_strides = [24, 12, 4 :: 32 word]\<rparr> 1 1 1 =
     Inr 17 \<and>
   (17 :: 32 word) < 2 * 3 * 4"
  using temporary_index [of
     "\<lparr>layout = layout_map 0 1 2, IsTemporary = True, m_data = replicate 24 (0 :: nat),
      is_set = True, m_name = ''tmp'', m_strides = [24, 12, 4 :: 32 word]\<rparr>" 5 7 9
     2 3 4 0 "''tmp''"
     "\<lparr>layout = layout_map 0 1 2, IsTemporary = True, m_data = replicate 24 (0 :: nat),
      is_set = True, m_name = ''tmp'', m_strides = [24, 12, 4 :: 32 word]\<rparr>"]
  by (simp add: base_storage_def storage_index_def bindE_def Let_def find_layout_def rd_def)

text \<open>
  The claim as first stated fails in a build with assertions, where the access aborts.
  Without assertions it fails under every layout other than \<^verbatim>\<open>layout_map<0,1,2>\<close>: with
  extents 2, 3, 4 the point (1, 2, 3), which lies inside the extents and has the plain
  index 23, gets the index 14, 7 or 11 under the three other layouts that are their own
  inverses, and the access reads \<^verbatim>\<open>m_strides[3]\<close> under the two that are not; under
  \<^verbatim>\<open>layout_map<2,1,0>\<close> with extents 4, 1, 2 the access to (0, 0, 3) gets the index 12 in
  a buffer of 8 cells. Under \<^verbatim>\<open>layout_map<0,1,2>\<close> it fails when an extent is zero or the
  product of the extents wraps around: the access divides by zero.
\<close>

theorem temporary_index_counterexample:
  "base_storage (layout_map 0 1 2) True (2 :: 32 word) 3 4 (0 :: nat) ''tmp'' =
     Inr \<lparr>layout = layout_map 0 1 2, IsTemporary = True, m_data = replicate 24 0,
          is_set = True, m_name = ''tmp'', m_strides = [24, 12, 4]\<rparr> \<and>
   storage_index False
     \<lparr>layout = layout_map 0 1 2, IsTemporary = True, m_data = replicate 24 (0 :: nat),
      is_set = True, m_name = ''tmp'', m_strides = [24, 12, 4 :: 32 word]\<rparr> 5 0 0 =
     Inl AssertionFailed \<and>
   base_storage (layout_map 2 1 0) True (4 :: 32 word) 1 2 (0 :: nat) ''tmp'' =
     Inr \<lparr>layout = layout_map 2 1 0, IsTemporary = True, m_data = replicate 8 0,
          is_set = True, m_name = ''tmp'', m_strides = [8, 4, 4]\<rparr> \<and>
   storage_index True
     \<lparr>layout = layout_map 2 1 0, IsTemporary = True, m_data = replicate 8 (0 :: nat),
      is_set = True, m_name = ''tmp'', m_strides = [8, 4, 4 :: 32 word]\<rparr> 0 0 3 =
     Inr 12 \<and>
   \<not> (12 :: 32 word) < 4 * 1 * 2 \<and>
   bindE (base_storage (layout_map 0 2 1) True (2 :: 32 word) 3 4 (0 :: nat) ''tmp'')
     (\<lambda>s. storage_index True s 1 2 3) = Inr 14 \<and>
   bindE (base_storage (layout_map 0 2 1) True (2 :: 32 word) 3 4 (0 :: nat) ''tmp'')
     (\<lambda>s. storage_index True (s\<lparr>IsTemporary := False\<rparr>) 1 2 3) = Inr 23 \<and>
   bindE (base_storage (layout_map 1 0 2) True (2 :: 32 word) 3 4 (0 :: nat) ''tmp'')
     (\<lambda>s. storage_index True s 1 2 3) = Inr 7 \<and>
   bindE (base_storage (layout_map 1 0 2) True (2 :: 32 word) 3 4 (0 :: nat) ''tmp'')
     (\<lambda>s. storage_index True (s\<lparr>IsTemporary := False\<rparr>) 1 2 3) = Inr 23 \<and>
   bindE (base_storage (layout_map 2 1 0) True (2 :: 32 word) 3 4 (0 :: nat) ''tmp'')
     (\<lambda>s. storage_index True s 1 2 3) = Inr 11 \<and>
   bindE (base_storage (layout_map 2 1 0) True (2 :: 32 word) 3 4 (0 :: nat) ''tmp'')
     (\<lambda>s. storage_index True (s\<lparr>IsTemporary := False\<rparr>) 1 2 3) = Inr 23 \<and>
   bindE (base_storage (layout_map 1 2 0) True (2 :: 32 word) 3 4 (0 :: nat) ''tmp'')
     (\<lambda>s. storage_index True s 1 2 3) = Inl OutOfBounds \<and>
   bindE (base_storage (layout_map 2 0 1) True (2 :: 32 word) 3 4 (0 :: nat) ''tmp'')
     (\<lambda>s. storage_index True s 1 2 3) = Inl OutOfBounds \<and>
   bindE (base_storage (layout_map 0 1 2) True (0 :: 32 word) 3 4 (0 :: nat) ''tmp'')
     (\<lambda>s. storage_index True s 0 0 0) = Inl DivisionByZero \<and>
   bindE (base_storage (layout_map 0 1 2) True (2 :: 32 word) 0 4 (0 :: nat) ''tmp'')
     (\<lambda>s. storage_index True s 0 0 0) = Inl DivisionByZero \<and>
   bindE (base_storage (layout_map 0 1 2) True (2 :: 32 word) 3 0 (0 :: nat) ''tmp'')
     (\<lambda>s. storage_index True s 0 0 0) = Inl DivisionByZero \<and>
   bindE (base_storage (layout_map 0 1 2) True (65536 :: 32 word) 65536 1 (0 :: nat) ''tmp'')
     (\<lambda>s. storage_index True s 0 0 0) = Inl DivisionByZero"
  by (simp add: base_storage_def storage_index_def c_assert_def dims_coordwise_def modulus_def
      find_layout_def rd_def bindE_def Let_def)

text \<open>
  Claim C2. For every storage and every access \<^verbatim>\<open>s(i,j,k)\<close>: when the operator returns
  an element, the index computed by \<^verbatim>\<open>_index\<close> was asserted to be strictly below
  \<^verbatim>\<open>m_strides[0]\<close>, the size of the storage, and the element is the cell of \<^verbatim>\<open>m_data\<close>
  at that index; when the index is not below the size, the assertion fails and the
  operator returns nothing: the outcome is the failed assertion itself.
\<close>

theorem operator_call_asserts_bounds:
  "(operator_call nd s i j k = Inr v \<longrightarrow>
      (\<exists>idx sz. storage_index nd s i j k = Inr idx \<and> storage_size s = Inr sz \<and>
         idx < sz \<and> rd (m_data s) (unat idx) = Inr v)) \<and>
   (storage_index nd s i j k = Inr idx \<and> storage_size s = Inr sz \<and> \<not> idx < sz \<longrightarrow>
      operator_call nd s i j k = Inl AssertionFailed)"
  by (auto simp: operator_call_def storage_size_def bindE_def assertion_def
      split: sum.splits if_splits)

theorem operator_call_asserts_bounds_witness:
  "operator_call False
     \<lparr>layout = layout_map 2 1 0, IsTemporary = False, m_data = replicate 8 (7 :: nat),
      is_set = True, m_name = ''u'', m_strides = [8, 4, 4 :: 32 word]\<rparr> 3 0 1 = Inr 7 \<and>
   storage_index False
     \<lparr>layout = layout_map 2 1 0, IsTemporary = False, m_data = replicate 8 (7 :: nat),
      is_set = True, m_name = ''u'', m_strides = [8, 4, 4 :: 32 word]\<rparr> 3 0 1 = Inr 7 \<and>
   (7 :: 32 word) < 8 \<and>
   storage_index False
     \<lparr>layout = layout_map 2 1 0, IsTemporary = False, m_data = replicate 8 (7 :: nat),
      is_set = True, m_name = ''u'', m_strides = [8, 4, 4 :: 32 word]\<rparr> 0 0 3 = Inr 12 \<and>
   \<not> (12 :: 32 word) < 8 \<and>
   operator_call False
     \<lparr>layout = layout_map 2 1 0, IsTemporary = False, m_data = replicate 8 (7 :: nat),
      is_set = True, m_name = ''u'', m_strides = [8, 4, 4 :: 32 word]\<rparr> 0 0 3 =
     Inl AssertionFailed"
  using operator_call_asserts_bounds [of False
     "\<lparr>layout = layout_map 2 1 0, IsTemporary = False, m_data = replicate 8 (7 :: nat),
      is_set = True, m_name = ''u'', m_strides = [8, 4, 4 :: 32 word]\<rparr>" 3 0 1 7 7 8]
    operator_call_asserts_bounds [of False
     "\<lparr>layout = layout_map 2 1 0, IsTemporary = False, m_data = replicate 8 (7 :: nat),
      is_set = True, m_name = ''u'', m_strides = [8, 4, 4 :: 32 word]\<rparr>" 0 0 3 7 12 8]
  by (simp add: operator_call_def storage_index_def storage_size_def assertion_def
      find_layout_def rd_def bindE_def Let_def)


section \<open>The iterate domain of the CUDA backend: results\<close>

text \<open>
  Claim C3, as amended. \<^verbatim>\<open>get_value_impl\<close> reads through \<^verbatim>\<open>__ldg\<close> if and only if the
  arg of the accessor is read-only in every stage of every multistage, the accessor is not
  in the bypass set, the return type of the accessor is arithmetic, and the code is
  compiled for \<^verbatim>\<open>__CUDA_ARCH__ >= 350\<close>; otherwise it reads ordinary global memory. Both
  ways the value is the one at the pointer plus the offset.
\<close>

theorem read_path_of_accessor:
  "get_value_impl CUDA_ARCH ida acc mem storage_pointer pointer_offset =
     (if accessor_points_to_readonly_arg ida acc \<and>
         index_type acc \<notin> bypass_caches_set ida \<and>
         is_arithmetic (accessor_return_type ida acc) \<and>
         350 \<le> CUDA_ARCH
      then ldg else gmem,
      mem (storage_pointer + pointer_offset))"
  by (auto simp: get_value_impl_def accessor_read_from_texture_def get_gmem_value_def)

theorem read_path_of_accessor_witness:
  "get_value_impl 350
     \<lparr>local_domain_args = [arg 4 ''storage_type''], readonly_args_indices = {4},
      bypass_caches_set = {}, accessor_return_type = (\<lambda>a. Const Floating)\<rparr>
     \<lparr>index_type = 0, offsets = (1, 0, 0)\<rparr> (\<lambda>a. 2 * a) 10 5 = (ldg, 30 :: nat)"
  using read_path_of_accessor [of 350
     "\<lparr>local_domain_args = [arg 4 ''storage_type''], readonly_args_indices = {4},
      bypass_caches_set = {}, accessor_return_type = (\<lambda>a. Const Floating)\<rparr>"
     "\<lparr>index_type = 0, offsets = (1, 0, 0)\<rparr>" "\<lambda>a. 2 * a" 10 5]
  by (simp add: accessor_points_to_readonly_arg_def)

text \<open>
  The claim as first stated fails for a read-only arg outside the bypass set whose
  accessor returns a type that is not arithmetic, and for an arithmetic one on an
  architecture below 350: both are read as ordinary global memory.
\<close>

theorem read_path_of_accessor_counterexample:
  "accessor_points_to_readonly_arg
     \<lparr>local_domain_args = [arg 4 ''storage_type''], readonly_args_indices = {4},
      bypass_caches_set = {}, accessor_return_type = (\<lambda>a. Const Other_type)\<rparr>
     \<lparr>index_type = 0, offsets = (1, 0, 0)\<rparr> \<and>
   index_type \<lparr>index_type = 0, offsets = (1, 0, 0)\<rparr> \<notin> bypass_caches_set
     \<lparr>local_domain_args = [arg 4 ''storage_type''], readonly_args_indices = {4},
      bypass_caches_set = {}, accessor_return_type = (\<lambda>a. Const Other_type)\<rparr> \<and>
   get_value_impl 350
     \<lparr>local_domain_args = [arg 4 ''storage_type''], readonly_args_indices = {4},
      bypass_caches_set = {}, accessor_return_type = (\<lambda>a. Const Other_type)\<rparr>
     \<lparr>index_type = 0, offsets = (1, 0, 0)\<rparr> (\<lambda>a. 2 * a) 10 5 = (gmem, 30 :: nat) \<and>
   get_value_impl 300
     \<lparr>local_domain_args = [arg 4 ''storage_type''], readonly_args_indices = {4},
      bypass_caches_set = {}, accessor_return_type = (\<lambda>a. Const Floating)\<rparr>
     \<lparr>index_type = 0, offsets = (1, 0, 0)\<rparr> (\<lambda>a. 2 * a) 10 5 = (gmem, 30 :: nat)"
  by (simp add: get_value_impl_def accessor_read_from_texture_def get_gmem_value_def
      accessor_points_to_readonly_arg_def)

text \<open>
  Claim C4. For an accessor whose arg has an IJ cache in the shared iterate domain,
  \<^verbatim>\<open>get_cache_value_impl\<close> returns the value of the cache tile at the position of the
  thread plus the offsets of the accessor; when the user put the arg into the bypass set,
  the same request reads through the data pointer of the accessor with the base class's
  \<^verbatim>\<open>get_value\<close>.
\<close>

theorem cached_or_bypassed_read:
  "(index_type acc \<notin> bypass_caches_set ida \<longrightarrow>
      get_ij_cache (m_pshared_iterate_domain d) (index_type acc) = Some c \<longrightarrow>
      get_cache_value_impl ida d acc =
        Inr (c (fst (m_thread_pos d) + fst (offsets acc),
                snd (m_thread_pos d) + fst (snd (offsets acc))))) \<and>
   (index_type acc \<in> bypass_caches_set ida \<longrightarrow>
      get_cache_value_impl ida d acc =
        Inr (get_value (super d) acc (get_data_pointer (super d) acc)))"
  by (simp add: get_cache_value_impl_def at_def split_beta)

theorem cached_or_bypassed_read_witness:
  "get_cache_value_impl
     \<lparr>local_domain_args = [arg 4 ''storage_type''], readonly_args_indices = {},
      bypass_caches_set = {}, accessor_return_type = (\<lambda>a. Floating)\<rparr>
     \<lparr>super = \<lparr>get_data_pointer = (\<lambda>a. 100 :: nat), get_value = (\<lambda>a p. int p)\<rparr>,
      m_block_size_i = 32, m_block_size_j = 8,
      m_pshared_iterate_domain = \<lparr>get_ij_cache = [0 \<mapsto> (\<lambda>(x, y). 10 * x + y)]\<rparr>,
      m_thread_pos = (3, 2)\<rparr>
     \<lparr>index_type = 0, offsets = (1, -1, 0)\<rparr> = Inr 41 \<and>
   get_cache_value_impl
     \<lparr>local_domain_args = [arg 4 ''storage_type''], readonly_args_indices = {},
      bypass_caches_set = {0}, accessor_return_type = (\<lambda>a. Floating)\<rparr>
     \<lparr>super = \<lparr>get_data_pointer = (\<lambda>a. 100 :: nat), get_value = (\<lambda>a p. int p)\<rparr>,
      m_block_size_i = 32, m_block_size_j = 8,
      m_pshared_iterate_domain = \<lparr>get_ij_cache = [0 \<mapsto> (\<lambda>(x, y). 10 * x + y)]\<rparr>,
      m_thread_pos = (3, 2)\<rparr>
     \<lparr>index_type = 0, offsets = (1, -1, 0)\<rparr> = Inr 100"
  using cached_or_bypassed_read [of "\<lparr>index_type = 0, offsets = (1, -1, 0)\<rparr>"
     "\<lparr>local_domain_args = [arg 4 ''storage_type''], readonly_args_indices = {},
      bypass_caches_set = {}, accessor_return_type = (\<lambda>a. Floating)\<rparr>"
     "\<lparr>super = \<lparr>get_data_pointer = (\<lambda>a. 100 :: nat), get_value = (\<lambda>a p. int p)\<rparr>,
      m_block_size_i = 32, m_block_size_j = 8,
      m_pshared_iterate_domain = \<lparr>get_ij_cache = [0 \<mapsto> (\<lambda>(x, y). 10 * x + y)]\<rparr>,
      m_thread_pos = (3, 2)\<rparr>" "\<lambda>(x, y). 10 * x + y"]
    cached_or_bypassed_read [of "\<lparr>index_type = 0, offsets = (1, -1, 0)\<rparr>"
     "\<lparr>local_domain_args = [arg 4 ''storage_type''], readonly_args_indices = {},
      bypass_caches_set = {0}, accessor_return_type = (\<lambda>a. Floating)\<rparr>"
     "\<lparr>super = \<lparr>get_data_pointer = (\<lambda>a. 100 :: nat), get_value = (\<lambda>a p. int p)\<rparr>,
      m_block_size_i = 32, m_block_size_j = 8,
      m_pshared_iterate_domain = \<lparr>get_ij_cache = [0 \<mapsto> (\<lambda>(x, y). 10 * x + y)]\<rparr>,
      m_thread_pos = (3, 2)\<rparr>" "\<lambda>(x, y). 10 * x + y"]
  by simp


section \<open>Local domains: results\<close>







end
